theory Spec2Isabelle
  imports Complex_Main "HOL-Library.Sublist"
begin

section \<open>The Asetek driver of liquidctl (liquidctl/driver/asetek.py)\<close>

text \<open>
  The driver talks to a USBXpress device through pyusb, keeps the last lighting frame in a
  YAML file and logs what it does. The model threads a record through every method: the
  \<open>dry_run\<close> flag, the content of the data file, the outcomes the transport is going to
  give to the successive calls made on it, and the trace of everything the driver has done
  so far (transport calls, file accesses and log records, in program order).
  Exceptions are values: every method returns \<open>error + 'a\<close> together with the new state.

  The methods keep their names without the leading underscore, except \<^verbatim>\<open>_open\<close>,
  \<^verbatim>\<open>_close\<close> and \<^verbatim>\<open>_write\<close>, which are \<open>open_device\<close>, \<open>close_device\<close> and \<open>write_cmd\<close>.
\<close>

subsection \<open>Data\<close>

datatype error =
    USBError  \<comment> \<open>usb.core.USBError, the transport error\<close>
  | ValueError
  | KeyError
  | IndexError
  | NotImplementedError
  | OSError  \<comment> \<open>the data file cannot be read\<close>
  | OtherError  \<comment> \<open>any other exception raised below the driver\<close>

type_synonym 'a res = "error + 'a"

datatype level = Debug | Info | Warning

datatype arg =
    S string
  | I int
  | Hex "int list"  \<comment> \<open>\<^verbatim>\<open>' '.join(format(i, '02x') for i in data)\<close>, kept as the data\<close>

datatype reply = Ok "int list" | Raise error

datatype event =
    Log level string "arg list"  \<comment> \<open>\<^verbatim>\<open>LOGGER.<level>(template, *args)\<close>\<close>
  | LogExc level error  \<comment> \<open>\<^verbatim>\<open>LOGGER.<level>(err, exc_info=True)\<close>\<close>
  | BaseConnect  \<comment> \<open>\<^verbatim>\<open>super().connect()\<close>\<close>
  | BaseDisconnect  \<comment> \<open>\<^verbatim>\<open>super().disconnect()\<close>\<close>
  | CtrlTransfer nat nat nat  \<comment> \<open>\<^verbatim>\<open>device.ctrl_transfer(type, request, value)\<close>\<close>
  | DevWrite nat "int list" nat  \<comment> \<open>\<^verbatim>\<open>device.write(endpoint, data, timeout)\<close>\<close>
  | DevRead nat nat nat  \<comment> \<open>\<^verbatim>\<open>device.read(endpoint, length, timeout)\<close>\<close>
  | DisposeResources  \<comment> \<open>\<^verbatim>\<open>usb.util.dispose_resources(device)\<close>\<close>
  | ToYaml "int list"  \<comment> \<open>\<^verbatim>\<open>data.to_yaml(filename=self.data_file)\<close>\<close>
  | FromYaml  \<comment> \<open>\<^verbatim>\<open>BoxList.from_yaml(filename=self.data_file)\<close>\<close>

record driver =
  dry_run :: bool
  data_file :: "int list option"  \<comment> \<open>content of profile.yaml, \<open>None\<close> when the file is missing\<close>
  replies :: "reply list"  \<comment> \<open>what the transport answers to the calls still to come\<close>
  trace :: "event list"

subsection \<open>Constants\<close>

definition FIXED_SPEED_CHANNELS :: "string \<rightharpoonup> int \<times> int \<times> int" where
  "FIXED_SPEED_CHANNELS = [''fan'' \<mapsto> (0x12, 30, 100), ''pump'' \<mapsto> (0x13, 30, 100)]"

definition VARIABLE_SPEED_CHANNELS :: "string \<rightharpoonup> int \<times> int \<times> int" where
  "VARIABLE_SPEED_CHANNELS = [''fan'' \<mapsto> (0x11, 30, 100)]"

definition MAX_PROFILE_POINTS :: nat where "MAX_PROFILE_POINTS = 6"
definition CRITICAL_TEMPERATURE :: int where "CRITICAL_TEMPERATURE = 60"
definition READ_ENDPOINT :: nat where "READ_ENDPOINT = 0x82"
definition READ_LENGTH :: nat where "READ_LENGTH = 32"
definition READ_TIMEOUT :: nat where "READ_TIMEOUT = 2000"
definition WRITE_ENDPOINT :: nat where "WRITE_ENDPOINT = 0x2"
definition WRITE_TIMEOUT :: nat where "WRITE_TIMEOUT = 2000"

definition USBXPRESS_REQUEST :: nat where "USBXPRESS_REQUEST = 0x02"
definition USBXPRESS_FLUSH_BUFFERS :: nat where "USBXPRESS_FLUSH_BUFFERS = 0x01"
definition USBXPRESS_CLEAR_TO_SEND :: nat where "USBXPRESS_CLEAR_TO_SEND = 0x02"
definition USBXPRESS_NOT_CLEAR_TO_SEND :: nat where "USBXPRESS_NOT_CLEAR_TO_SEND = 0x04"

text \<open>
  \<^verbatim>\<open>_USBXPRESS = CTRL_OUT | CTRL_TYPE_VENDOR | CTRL_RECIPIENT_DEVICE\<close>; pyusb defines the
  three as 0x00, 0x40 and 0x00.
\<close>

definition USBXPRESS :: nat where "USBXPRESS = 0x40"

definition DEFAULT_COLOR_STATE :: "int list" where
  "DEFAULT_COLOR_STATE =
     [0x10, 0x00, 0x00, 0x00, 0x00, 0x00, 0x00, 0xff, 0x00, 0x00, 0x37,
      0x00, 0x00, 0x00, 0x00, 0x00, 0x01, 0x00, 0x01]"

subsection \<open>The environment: logging, the transport, the data file\<close>

definition emit :: "event \<Rightarrow> driver \<Rightarrow> driver" where
  "emit ev w = w\<lparr>trace := trace w @ [ev]\<rparr>"

definition log :: "level \<Rightarrow> string \<Rightarrow> arg list \<Rightarrow> driver \<Rightarrow> driver" where
  "log l template args w = emit (Log l template args) w"

text \<open>
  A call on the transport is recorded and answered by the next outcome of \<open>replies\<close>; a
  transport whose outcomes are used up answers every further call with success and no data.
\<close>

definition transport :: "event \<Rightarrow> driver \<Rightarrow> int list res \<times> driver" where
  "transport call w =
     (case replies w of
        [] \<Rightarrow> (Inr [], emit call w)
      | Ok d # rs \<Rightarrow> (Inr d, emit call (w\<lparr>replies := rs\<rparr>))
      | Raise e # rs \<Rightarrow> (Inl e, emit call (w\<lparr>replies := rs\<rparr>)))"

definition to_yaml :: "int list \<Rightarrow> driver \<Rightarrow> driver" where
  "to_yaml data w = emit (ToYaml data) (w\<lparr>data_file := Some data\<rparr>)"

definition from_yaml :: "driver \<Rightarrow> int list res \<times> driver" where
  "from_yaml w =
     (case data_file w of
        None \<Rightarrow> (Inl OSError, emit FromYaml w)
      | Some data \<Rightarrow> (Inr data, emit FromYaml w))"

subsection \<open>Opening and closing, transactions\<close>

definition open_device :: "driver \<Rightarrow> unit res \<times> driver" where
  "open_device w =
     (case transport (CtrlTransfer USBXPRESS USBXPRESS_REQUEST USBXPRESS_CLEAR_TO_SEND)
             (log Debug ''open device'' [] w) of
        (Inl e, w1) \<Rightarrow> (Inl e, w1)
      | (Inr _, w1) \<Rightarrow> (Inr (), w1))"

definition close_device :: "driver \<Rightarrow> unit res \<times> driver" where
  "close_device w =
     (case transport (CtrlTransfer USBXPRESS USBXPRESS_REQUEST USBXPRESS_NOT_CLEAR_TO_SEND)
             (log Debug ''close device'' [] w) of
        (Inl e, w1) \<Rightarrow> (Inl e, w1)
      | (Inr _, w1) \<Rightarrow> (Inr (), w1))"

definition begin_transaction :: "driver \<Rightarrow> unit res \<times> driver" where
  "begin_transaction w =
     (case transport (CtrlTransfer USBXPRESS USBXPRESS_REQUEST USBXPRESS_FLUSH_BUFFERS)
             (log Debug ''begin transaction'' [] w) of
        (Inl e, w1) \<Rightarrow> (Inl e, w1)
      | (Inr _, w1) \<Rightarrow> (Inr (), w1))"

definition end_transaction_and_read :: "driver \<Rightarrow> int list res \<times> driver" where
  "end_transaction_and_read w =
     (case transport (DevRead READ_ENDPOINT READ_LENGTH READ_TIMEOUT) w of
        (Inl e, w1) \<Rightarrow> (Inl e, w1)
      | (Inr msg, w1) \<Rightarrow>
          (Inr msg, emit DisposeResources (log Debug ''received %s'' [Hex msg] w1)))"

definition write_cmd :: "int list \<Rightarrow> driver \<Rightarrow> unit res \<times> driver" where
  "write_cmd data w =
     (let w1 = log Debug ''write %s'' [Hex data] w in
      if dry_run w1 then (Inr (), w1)
      else (case transport (DevWrite WRITE_ENDPOINT data WRITE_TIMEOUT) w1 of
              (Inl e, w2) \<Rightarrow> (Inl e, w2)
            | (Inr _, w2) \<Rightarrow> (Inr (), w2)))"

definition send_dummy_command :: "driver \<Rightarrow> unit res \<times> driver" where
  "send_dummy_command w =
     (case from_yaml w of
        (Inl e, w1) \<Rightarrow> (Inl e, w1)
      | (Inr data, w1) \<Rightarrow> write_cmd data w1)"

subsection \<open>connect and disconnect\<close>

definition connect :: "driver \<Rightarrow> unit res \<times> driver" where
  "connect w =
     (case transport BaseConnect w of
        (Inl e, w1) \<Rightarrow> (Inl e, w1)
      | (Inr _, w1) \<Rightarrow>
          (case open_device w1 of
             (Inr _, w2) \<Rightarrow> (Inr (), w2)
           | (Inl err, w2) \<Rightarrow>
               if err = USBError then
                 (let w3 = log Warning ''report: failed to open right away, will close first'' [] w2;
                      w4 = emit (LogExc Debug err) w3
                  in case close_device w4 of
                       (Inl e, w5) \<Rightarrow> (Inl e, w5)
                     | (Inr _, w5) \<Rightarrow> open_device w5)
               else (Inl err, w2)))"

definition disconnect :: "driver \<Rightarrow> unit res \<times> driver" where
  "disconnect w =
     (case close_device w of
        (Inl e, w1) \<Rightarrow> (Inl e, w1)
      | (Inr _, w1) \<Rightarrow>
          (case transport BaseDisconnect w1 of
             (Inl e, w2) \<Rightarrow> (Inl e, w2)
           | (Inr _, w2) \<Rightarrow> (Inr (), w2)))"

subsection \<open>get_status\<close>

text \<open>
  A status value is a Python float, int or str. The float of the liquid temperature is kept
  as the exact number the expression \<^verbatim>\<open>msg[10] + msg[14] / 10\<close> denotes; Python rounds it to
  the nearest double.
\<close>

datatype val = VFloat real | VInt int | VStr string

type_synonym report = "(string \<times> val \<times> string) list"

fun digits :: "nat \<Rightarrow> string" where
  "digits n =
     (if n < 10 then [''0123456789'' ! n]
      else digits (n div 10) @ [''0123456789'' ! (n mod 10)])"

definition str :: "int \<Rightarrow> string" where
  "str i = (if i < 0 then CHR ''-'' # digits (nat (- i)) else digits (nat i))"

definition bind_res :: "'a res \<Rightarrow> ('a \<Rightarrow> 'b res) \<Rightarrow> 'b res" where
  "bind_res r f = (case r of Inl e \<Rightarrow> Inl e | Inr x \<Rightarrow> f x)"

definition item :: "int list \<Rightarrow> nat \<Rightarrow> int res" where
  \<comment> \<open>\<^verbatim>\<open>msg[i]\<close> for an index written as a non-negative literal\<close>
  "item msg i = (if i < length msg then Inr (msg ! i) else Inl IndexError)"

definition slice :: "int list \<Rightarrow> nat \<Rightarrow> nat \<Rightarrow> int list" where
  \<comment> \<open>\<^verbatim>\<open>msg[a:b]\<close> for non-negative literals: no failure, the part that exists\<close>
  "slice msg a b = take (b - a) (drop a msg)"

definition format_firmware :: "int list \<Rightarrow> string res" where
  \<comment> \<open>\<^verbatim>\<open>'{}.{}.{}.{}'.format(*tuple(args))\<close>: IndexError when a field has no argument\<close>
  "format_firmware args =
     (case args of
        a # b # c # d # _ \<Rightarrow> Inr (str a @ ''.'' @ str b @ ''.'' @ str c @ ''.'' @ str d)
      | _ \<Rightarrow> Inl IndexError)"

definition degree_celsius :: string where
  \<comment> \<open>the two characters U+00B0 and C\<close>
  "degree_celsius = [CHR 0xB0, CHR ''C'']"

definition status_report :: "int list \<Rightarrow> report res" where
  \<comment> \<open>lines 140 to 146 of get_status, in their order of evaluation\<close>
  "status_report msg =
     bind_res (format_firmware (slice msg 0x17 0x1b)) (\<lambda>firmware.
     bind_res (item msg 10) (\<lambda>m10.
     bind_res (item msg 14) (\<lambda>m14.
     bind_res (item msg 0) (\<lambda>m0.
     bind_res (item msg 1) (\<lambda>m1.
     bind_res (item msg 8) (\<lambda>m8.
     bind_res (item msg 9) (\<lambda>m9.
       Inr [(''Liquid temperature'', VFloat (of_int m10 + of_int m14 / 10), degree_celsius),
            (''Fan speed'', VInt (or (push_bit 8 m0) m1), ''rpm''),
            (''Pump speed'', VInt (or (push_bit 8 m8) m9), ''rpm''),
            (''Firmware version'', VStr firmware, [])])))))))"

definition get_status :: "driver \<Rightarrow> report res \<times> driver" where
  "get_status w =
     (case begin_transaction w of
        (Inl e, w1) \<Rightarrow> (Inl e, w1)
      | (Inr _, w1) \<Rightarrow>
          (case send_dummy_command w1 of
             (Inl e, w2) \<Rightarrow> (Inl e, w2)
           | (Inr _, w2) \<Rightarrow>
               (case end_transaction_and_read w2 of
                  (Inl e, w3) \<Rightarrow> (Inl e, w3)
                | (Inr msg, w3) \<Rightarrow> (status_report msg, w3))))"

subsection \<open>Speed profiles\<close>

type_synonym profile = "(int \<times> int) list"

text \<open>
  \<^verbatim>\<open>liquidctl.util.normalize_profile\<close> and \<^verbatim>\<open>liquidctl.util.autofill_profile\<close> are not part
  of the driver's file: the model takes them as the parameters \<open>normalize_profile\<close> and
  \<open>autofill_profile\<close>, each free to return a profile or to raise.

  The loop of \<^verbatim>\<open>_prepare_profile\<close> walks the list by index and overwrites the entry it is
  looking at.
\<close>

function prepare_profile_loop :: "nat \<Rightarrow> profile \<Rightarrow> int \<Rightarrow> int \<Rightarrow> profile" where
  "prepare_profile_loop i opt min_duty max_duty =
     (if i < length opt then
        (case opt ! i of (temp, duty) \<Rightarrow>
           if duty < min_duty then
             prepare_profile_loop (Suc i) (opt[i := (temp, min_duty)]) min_duty max_duty
           else if duty > max_duty then
             prepare_profile_loop (Suc i) (opt[i := (temp, max_duty)]) min_duty max_duty
           else prepare_profile_loop (Suc i) opt min_duty max_duty)
      else opt)"
  by pat_completeness auto
termination
  by (relation "measure (\<lambda>(i, opt, min_duty, max_duty). length opt - i)") auto

definition prepare_profile ::
  "(profile \<Rightarrow> int \<Rightarrow> profile res) \<Rightarrow> (profile \<Rightarrow> nat \<Rightarrow> profile res) \<Rightarrow>
   profile \<Rightarrow> int \<Rightarrow> int \<Rightarrow> profile res" where
  "prepare_profile normalize_profile autofill_profile profile min_duty max_duty =
     (case normalize_profile profile CRITICAL_TEMPERATURE of
        Inl e \<Rightarrow> Inl e
      | Inr normalized \<Rightarrow>
          (case autofill_profile normalized MAX_PROFILE_POINTS of
             Inl e \<Rightarrow> Inl e
           | Inr opt \<Rightarrow> Inr (prepare_profile_loop 0 opt min_duty max_duty)))"

definition profile_template :: string where
  "profile_template =
     ''setting %s PWM duty to %i%% for liquid temperature >= %i'' @ degree_celsius"

definition set_speed_profile ::
  "(profile \<Rightarrow> int \<Rightarrow> profile res) \<Rightarrow> (profile \<Rightarrow> nat \<Rightarrow> profile res) \<Rightarrow>
   string \<Rightarrow> profile \<Rightarrow> driver \<Rightarrow> unit res \<times> driver" where
  "set_speed_profile normalize_profile autofill_profile channel profile w =
     (case VARIABLE_SPEED_CHANNELS channel of
        None \<Rightarrow> (Inl KeyError, w)
      | Some (mtype, dmin, dmax) \<Rightarrow>
          (case prepare_profile normalize_profile autofill_profile profile dmin dmax of
             Inl e \<Rightarrow> (Inl e, w)
           | Inr opt_profile \<Rightarrow>
               (let w1 = fold (\<lambda>(temp, duty). log Info profile_template [S channel, I duty, I temp])
                           opt_profile w
                in if opt_profile = [] then (Inl ValueError, w1)
                     \<comment> \<open>\<^verbatim>\<open>temps, duties = map(list, zip())\<close> has nothing to unpack\<close>
                   else
                     (let temps = map fst opt_profile; duties = map snd opt_profile
                      in case begin_transaction w1 of
                           (Inl e, w2) \<Rightarrow> (Inl e, w2)
                         | (Inr _, w2) \<Rightarrow>
                             (case write_cmd ([mtype, 0] @ temps @ duties) w2 of
                                (Inl e, w3) \<Rightarrow> (Inl e, w3)
                              | (Inr _, w3) \<Rightarrow>
                                  (case end_transaction_and_read w3 of
                                     (Inl e, w4) \<Rightarrow> (Inl e, w4)
                                   | (Inr _, w4) \<Rightarrow> (Inr (), w4)))))))"

subsection \<open>Fixed speeds\<close>

definition send_fixed_speed :: "string \<Rightarrow> int \<Rightarrow> driver \<Rightarrow> unit res \<times> driver" where
  "send_fixed_speed channel speed w =
     (case FIXED_SPEED_CHANNELS channel of
        None \<Rightarrow> (Inl KeyError, w)
      | Some (mtype, smin, smax) \<Rightarrow>
          (let speed1 = (if speed < smin then smin else if speed > smax then smax else speed);
               w1 = log Info ''setting %s PWM duty to %i%%'' [S channel, I speed1] w
           in write_cmd [mtype, speed1] w1))"

definition set_fixed_speed :: "string \<Rightarrow> int \<Rightarrow> driver \<Rightarrow> unit res \<times> driver" where
  "set_fixed_speed channel speed w =
     (if channel = ''sync'' then
        (case begin_transaction w of
           (Inl e, w1) \<Rightarrow> (Inl e, w1)
         | (Inr _, w1) \<Rightarrow>
             (case send_fixed_speed ''pump'' speed w1 of
                (Inl e, w2) \<Rightarrow> (Inl e, w2)
              | (Inr _, w2) \<Rightarrow>
                  (case send_fixed_speed ''fan'' speed w2 of
                     (Inl e, w3) \<Rightarrow> (Inl e, w3)
                   | (Inr _, w3) \<Rightarrow>
                       (case end_transaction_and_read w3 of
                          (Inl e, w4) \<Rightarrow> (Inl e, w4)
                        | (Inr _, w4) \<Rightarrow> (Inr (), w4)))))
      else
        (case FIXED_SPEED_CHANNELS channel of
           None \<Rightarrow> (Inl KeyError, w)
         | Some _ \<Rightarrow>  \<comment> \<open>a non-empty tuple is true\<close>
             (case begin_transaction w of
                (Inl e, w1) \<Rightarrow> (Inl e, w1)
              | (Inr _, w1) \<Rightarrow>
                  (case send_fixed_speed channel speed w1 of
                     (Inl e, w2) \<Rightarrow> (Inl e, w2)
                   | (Inr _, w2) \<Rightarrow>
                       (case end_transaction_and_read w2 of
                          (Inr _, w3) \<Rightarrow> (Inr (), w3)
                        | (Inl err, w3) \<Rightarrow>
                            if err = USBError then
                              (Inr (), emit (LogExc Debug err)
                                 (log Warning ''report: failed to read after setting speed'' [] w3))
                            else (Inl err, w3))))))"

subsection \<open>set_color\<close>

text \<open>
  The \<open>speed\<close> argument is given by what \<^verbatim>\<open>int(speed)\<close> does with it: \<open>SpeedInt n\<close> is a
  value that \<^verbatim>\<open>int\<close> converts to \<open>n\<close>, \<open>SpeedName s\<close> a string on which it raises ValueError.
\<close>

datatype speed_arg = SpeedInt int | SpeedName string

definition modes :: "string list" where
  "modes = [''fixed'', ''alternating'', ''blinking'', ''off'']"

definition speeds :: "string \<rightharpoonup> int" where
  "speeds = [''fastest'' \<mapsto> 1, ''faster'' \<mapsto> 2, ''normal'' \<mapsto> 3, ''slower'' \<mapsto> 4, ''slowest'' \<mapsto> 5]"

definition speed_warning :: string where
  "speed_warning = ''Speed must be a value between 1 and 255, setting to 1''"

definition channel_warning :: string where
  "channel_warning =
     ''Only '' @ [CHR 0x22] @ ''logo'' @ [CHR 0x22] @
     '' channel supported for this device, falling back to that''"

definition colors_warning :: string where
  "colors_warning = ''Only maximum of 2 colors supported, ignoring further colors''"

definition lighting_frame :: "int list \<Rightarrow> int list \<Rightarrow> int \<Rightarrow> string \<Rightarrow> int list" where
  \<comment> \<open>the list of lines 280 to 289\<close>
  "lighting_frame color1 color2 speed mode =
     [0x10] @ color1 @ color2 @
     [0xff, 0x00, 0x00, 0x37, speed, speed,
      if mode = ''off'' then 0x00 else 0x01,
      if mode = ''alternating'' then 0x01 else 0x00,
      if mode = ''blinking'' then 0x01 else 0x00,
      0x01, 0x00, 0x01]"

definition set_color ::
  "string \<Rightarrow> string \<Rightarrow> int list list \<Rightarrow> speed_arg \<Rightarrow> driver \<Rightarrow> unit res \<times> driver" where
  "set_color channel mode colors speed w =
     (let (speed1, w1) =
            (case speed of
               SpeedName s \<Rightarrow>
                 (case speeds s of
                    None \<Rightarrow> (1, log Warning speed_warning [] w)
                  | Some v \<Rightarrow> (v, w))
             | SpeedInt n \<Rightarrow>
                 if n < 1 \<or> n > 255 then (1, log Warning speed_warning [] w) else (n, w));
          w2 = (if channel \<noteq> ''logo'' then log Warning channel_warning [] w1 else w1)
      in if mode \<notin> set modes then (Inl NotImplementedError, w2)
         else
           (case (if mode = ''off'' then Inr ([0x00, 0x00, 0x00], [0x00, 0x00, 0x00], w2)
                  else (case colors of
                          [] \<Rightarrow> Inl ValueError  \<comment> \<open>\<^verbatim>\<open>color1, *color2 = colors\<close> needs one value\<close>
                        | color1 # color2 \<Rightarrow>
                            Inr (color1,
                                 (case color2 of [] \<Rightarrow> [0x00, 0x00, 0x00] | c # _ \<Rightarrow> c),
                                 (if length color2 > 1 then log Warning colors_warning [] w2
                                  else w2)))) of
              Inl e \<Rightarrow> (Inl e, w2)
            | Inr (color1, color2, w3) \<Rightarrow>
                (case begin_transaction w3 of
                   (Inl e, w4) \<Rightarrow> (Inl e, w4)
                 | (Inr _, w4) \<Rightarrow>
                     (let data = lighting_frame color1 color2 speed1 mode;
                          w5 = to_yaml data w4
                      in case write_cmd data w5 of
                           (Inl e, w6) \<Rightarrow> (Inl e, w6)
                         | (Inr _, w6) \<Rightarrow>
                             (case end_transaction_and_read w6 of
                                (Inl e, w7) \<Rightarrow> (Inl e, w7)
                              | (Inr _, w7) \<Rightarrow> (Inr (), w7))))))"

subsection \<open>Reading a run: the vocabulary of the statements\<close>

text \<open>
  \<open>reply_at rs i\<close> is the outcome of the \<open>i\<close>-th transport call to come, \<open>calls\<close> keeps
  the transport and file accesses of a trace, \<open>writes\<close> the frames that reached the device.
\<close>

definition reply_at :: "reply list \<Rightarrow> nat \<Rightarrow> reply" where
  "reply_at rs i = (case drop i rs of [] \<Rightarrow> Ok [] | r # _ \<Rightarrow> r)"

definition is_ok :: "reply \<Rightarrow> bool" where
  "is_ok r = (case r of Ok _ \<Rightarrow> True | Raise _ \<Rightarrow> False)"

definition outcome :: "reply \<Rightarrow> unit res" where
  "outcome r = (case r of Ok _ \<Rightarrow> Inr () | Raise e \<Rightarrow> Inl e)"

definition is_call :: "event \<Rightarrow> bool" where
  "is_call ev = (case ev of Log _ _ _ \<Rightarrow> False | LogExc _ _ \<Rightarrow> False | _ \<Rightarrow> True)"

definition calls :: "event list \<Rightarrow> event list" where
  "calls t = filter is_call t"

fun writes :: "event list \<Rightarrow> int list list" where
  "writes [] = []"
| "writes (DevWrite ep data timeout # t) = data # writes t"
| "writes (ev # t) = writes t"

fun log_levels :: "event list \<Rightarrow> level list" where
  "log_levels [] = []"
| "log_levels (Log l template args # t) = l # log_levels t"
| "log_levels (LogExc l e # t) = l # log_levels t"
| "log_levels (ev # t) = log_levels t"

definition OPEN :: event where
  "OPEN = CtrlTransfer USBXPRESS USBXPRESS_REQUEST USBXPRESS_CLEAR_TO_SEND"

definition CLOSE :: event where
  "CLOSE = CtrlTransfer USBXPRESS USBXPRESS_REQUEST USBXPRESS_NOT_CLEAR_TO_SEND"

definition BEGIN :: event where
  "BEGIN = CtrlTransfer USBXPRESS USBXPRESS_REQUEST USBXPRESS_FLUSH_BUFFERS"

definition WRITE :: "int list \<Rightarrow> event" where
  "WRITE data = DevWrite WRITE_ENDPOINT data WRITE_TIMEOUT"

definition READ :: event where
  "READ = DevRead READ_ENDPOINT READ_LENGTH READ_TIMEOUT"

text \<open>What a read adds to the trace, given the outcome the transport has for it.\<close>

definition read_events :: "reply \<Rightarrow> event list" where
  "read_events r =
     READ # (case r of
               Ok msg \<Rightarrow> [Log Debug ''received %s'' [Hex msg], DisposeResources]
             | Raise e \<Rightarrow> [])"

text \<open>
  What \<open>set_color\<close> makes of its arguments once they are valid: the speed byte, the two
  colours, the frame, and the warnings about the arguments.
\<close>

definition speed_byte :: "speed_arg \<Rightarrow> int" where
  "speed_byte speed =
     (case speed of
        SpeedInt n \<Rightarrow> if 1 \<le> n \<and> n \<le> 255 then n else 1
      | SpeedName s \<Rightarrow> (case speeds s of Some v \<Rightarrow> v | None \<Rightarrow> 1))"

definition speed_rejected :: "speed_arg \<Rightarrow> bool" where
  "speed_rejected speed =
     (case speed of
        SpeedInt n \<Rightarrow> n < 1 \<or> n > 255
      | SpeedName s \<Rightarrow> speeds s = None)"

definition color_frame :: "string \<Rightarrow> int list list \<Rightarrow> speed_arg \<Rightarrow> int list" where
  "color_frame mode colors speed =
     (if mode = ''off''
      then lighting_frame [0x00, 0x00, 0x00] [0x00, 0x00, 0x00] (speed_byte speed) mode
      else lighting_frame (hd colors)
             (if length colors < 2 then [0x00, 0x00, 0x00] else colors ! 1)
             (speed_byte speed) mode)"

definition argument_warnings ::
  "string \<Rightarrow> string \<Rightarrow> int list list \<Rightarrow> speed_arg \<Rightarrow> event list" where
  "argument_warnings channel mode colors speed =
     (if speed_rejected speed then [Log Warning speed_warning []] else []) @
     (if channel \<noteq> ''logo'' then [Log Warning channel_warning []] else []) @
     (if mode \<noteq> ''off'' \<and> 2 < length colors then [Log Warning colors_warning []] else [])"

definition rgb :: "int list \<Rightarrow> bool" where
  "rgb color = (length color = 3 \<and> list_all (\<lambda>x. 0 \<le> x \<and> x \<le> 255) color)"

text \<open>
  A driver right after its construction on a machine without data file: \<^verbatim>\<open>__init__\<close> has
  stored \<open>DEFAULT_COLOR_STATE\<close>, nothing has been done yet.
\<close>

definition fresh_driver :: "bool \<Rightarrow> reply list \<Rightarrow> driver" where
  "fresh_driver dry rs =
     \<lparr>dry_run = dry, data_file = Some DEFAULT_COLOR_STATE, replies = rs, trace = []\<rparr>"

text \<open>A 32-byte frame: fan at 3000 rpm, pump at 1000 rpm, 25.3 degrees, firmware 1.0.7.12.\<close>

definition example_frame :: "int list" where
  "example_frame =
     [0x0b, 0xb8, 0, 0, 0, 0, 0, 0, 0x03, 0xe8, 25, 0, 0, 0, 3, 0,
      0, 0, 0, 0, 0, 0, 0, 1, 0, 7, 12, 0, 0, 0, 0, 0]"

section \<open>Properties\<close>

subsection \<open>The environment\<close>

lemma emit_fields [simp]:
  "trace (emit ev w) = trace w @ [ev]"
  "replies (emit ev w) = replies w"
  "dry_run (emit ev w) = dry_run w"
  "data_file (emit ev w) = data_file w"
  by (simp_all add: emit_def)

lemma log_fields [simp]:
  "trace (log l template args w) = trace w @ [Log l template args]"
  "replies (log l template args w) = replies w"
  "dry_run (log l template args w) = dry_run w"
  "data_file (log l template args w) = data_file w"
  by (simp_all add: log_def)

lemma to_yaml_fields [simp]:
  "trace (to_yaml data w) = trace w @ [ToYaml data]"
  "replies (to_yaml data w) = replies w"
  "dry_run (to_yaml data w) = dry_run w"
  "data_file (to_yaml data w) = Some data"
  by (simp_all add: to_yaml_def)

lemma reply_at_tl [simp]: "reply_at (tl rs) i = reply_at rs (Suc i)"
  by (simp add: reply_at_def drop_Suc)

lemma reply_at_Cons [simp]:
  "reply_at (r # rs) 0 = r"
  "reply_at (r # rs) (Suc i) = reply_at rs i"
  "reply_at [] i = Ok []"
  by (simp_all add: reply_at_def)

lemma reply_at_Cons_numeral [simp]:
  "reply_at (r # rs) (numeral k) = reply_at rs (pred_numeral k)"
  by (simp add: reply_at_def drop_Cons_numeral)

lemma reply_at_Suc_numeral [simp]:
  "reply_at rs (Suc (Suc 0)) = reply_at rs 2"
  "reply_at rs (Suc (Suc (Suc 0))) = reply_at rs 3"
  by (simp_all add: numeral_2_eq_2 numeral_3_eq_3)

lemma is_ok_simps [simp]: "is_ok (Ok d)" "\<not> is_ok (Raise e)"
  by (simp_all add: is_ok_def)

lemma outcome_simps [simp]: "outcome (Ok d) = Inr ()" "outcome (Raise e) = Inl e"
  by (simp_all add: outcome_def)

lemma calls_simps [simp]:
  "calls [] = []"
  "calls (xs @ ys) = calls xs @ calls ys"
  "calls (Log l template args # xs) = calls xs"
  "calls (LogExc l e # xs) = calls xs"
  "calls (BaseConnect # xs) = BaseConnect # calls xs"
  "calls (BaseDisconnect # xs) = BaseDisconnect # calls xs"
  "calls (CtrlTransfer a b c # xs) = CtrlTransfer a b c # calls xs"
  "calls (DevWrite a d c # xs) = DevWrite a d c # calls xs"
  "calls (DevRead a b c # xs) = DevRead a b c # calls xs"
  "calls (DisposeResources # xs) = DisposeResources # calls xs"
  "calls (ToYaml d # xs) = ToYaml d # calls xs"
  "calls (FromYaml # xs) = FromYaml # calls xs"
  by (simp_all add: calls_def is_call_def)

lemma calls_named [simp]:
  "calls (OPEN # xs) = OPEN # calls xs"
  "calls (CLOSE # xs) = CLOSE # calls xs"
  "calls (BEGIN # xs) = BEGIN # calls xs"
  "calls (WRITE d # xs) = WRITE d # calls xs"
  "calls (READ # xs) = READ # calls xs"
  by (simp_all add: OPEN_def CLOSE_def BEGIN_def WRITE_def READ_def)

lemma writes_append [simp]: "writes (xs @ ys) = writes xs @ writes ys"
  by (induction xs rule: writes.induct) simp_all

lemma writes_named [simp]:
  "writes (OPEN # xs) = writes xs"
  "writes (CLOSE # xs) = writes xs"
  "writes (BEGIN # xs) = writes xs"
  "writes (WRITE d # xs) = d # writes xs"
  "writes (READ # xs) = writes xs"
  by (simp_all add: OPEN_def CLOSE_def BEGIN_def WRITE_def READ_def)

lemma log_levels_append [simp]: "log_levels (xs @ ys) = log_levels xs @ log_levels ys"
  by (induction xs rule: log_levels.induct) simp_all

lemma log_levels_named [simp]:
  "log_levels (OPEN # xs) = log_levels xs"
  "log_levels (CLOSE # xs) = log_levels xs"
  "log_levels (BEGIN # xs) = log_levels xs"
  "log_levels (WRITE d # xs) = log_levels xs"
  "log_levels (READ # xs) = log_levels xs"
  by (simp_all add: OPEN_def CLOSE_def BEGIN_def WRITE_def READ_def)

text \<open>Every transport call takes the next outcome, whatever the call is.\<close>

lemma transport_reply:
  "transport call w =
     (case reply_at (replies w) 0 of
        Ok d \<Rightarrow> (Inr d, emit call (w\<lparr>replies := tl (replies w)\<rparr>))
      | Raise e \<Rightarrow> (Inl e, emit call (w\<lparr>replies := tl (replies w)\<rparr>)))"
  by (cases "replies w") (auto simp: transport_def reply_at_def emit_def split: reply.splits)

lemma open_device_reply:
  "open_device w =
     (outcome (reply_at (replies w) 0),
      emit OPEN ((log Debug ''open device'' [] w)\<lparr>replies := tl (replies w)\<rparr>))"
  by (simp add: open_device_def transport_reply OPEN_def split: reply.splits)

lemma close_device_reply:
  "close_device w =
     (outcome (reply_at (replies w) 0),
      emit CLOSE ((log Debug ''close device'' [] w)\<lparr>replies := tl (replies w)\<rparr>))"
  by (simp add: close_device_def transport_reply CLOSE_def split: reply.splits)

lemma begin_transaction_reply:
  "begin_transaction w =
     (outcome (reply_at (replies w) 0),
      emit BEGIN ((log Debug ''begin transaction'' [] w)\<lparr>replies := tl (replies w)\<rparr>))"
  by (simp add: begin_transaction_def transport_reply BEGIN_def split: reply.splits)

lemma write_cmd_reply:
  "write_cmd data w =
     (if dry_run w then (Inr (), log Debug ''write %s'' [Hex data] w)
      else (outcome (reply_at (replies w) 0),
            emit (WRITE data)
              ((log Debug ''write %s'' [Hex data] w)\<lparr>replies := tl (replies w)\<rparr>)))"
  by (simp add: write_cmd_def transport_reply WRITE_def Let_def split: reply.splits)

lemma end_transaction_and_read_reply:
  "end_transaction_and_read w =
     (case reply_at (replies w) 0 of
        Ok msg \<Rightarrow>
          (Inr msg,
           emit DisposeResources
             (log Debug ''received %s'' [Hex msg] (emit READ (w\<lparr>replies := tl (replies w)\<rparr>))))
      | Raise e \<Rightarrow> (Inl e, emit READ (w\<lparr>replies := tl (replies w)\<rparr>)))"
  by (simp add: end_transaction_and_read_def transport_reply READ_def split: reply.splits)

subsection \<open>connect\<close>

text \<open>
  Claim C2, as amended. Once the base class has attached the device, \<open>connect\<close> attempts
  \<open>open\<close>. It performs \<open>close\<close>, once, if and only if that first \<open>open\<close> raised the transport
  error; it retries \<open>open\<close>, once, if and only if that \<open>close\<close> returned. The error of the
  \<open>close\<close> or of the retried \<open>open\<close> is the caller's; an error of the first \<open>open\<close> that is
  not the transport error is the caller's without any \<open>close\<close>. Nothing else is called.
\<close>

theorem connect_close_then_retry_once:
  "is_ok (reply_at (replies w) 0) \<Longrightarrow>
   calls (trace (snd (connect w))) =
     calls (trace w) @ BaseConnect # OPEN #
       (if reply_at (replies w) 1 = Raise USBError
        then CLOSE # (if is_ok (reply_at (replies w) 2) then [OPEN] else [])
        else []) \<and>
   fst (connect w) =
     (if reply_at (replies w) 1 = Raise USBError
      then (if is_ok (reply_at (replies w) 2) then outcome (reply_at (replies w) 3)
            else outcome (reply_at (replies w) 2))
      else outcome (reply_at (replies w) 1))"
  by (cases "reply_at (replies w) 0"; cases "reply_at (replies w) 1";
      cases "reply_at (replies w) 2"; cases "reply_at (replies w) 3")
     (simp_all add: connect_def transport_reply open_device_reply close_device_reply
        Let_def)

text \<open>
  The first \<open>open\<close> fails, the \<open>close\<close> and the second \<open>open\<close> succeed: one \<open>close\<close>, two
  \<open>open\<close>, and \<open>connect\<close> returns.
\<close>

theorem connect_close_then_retry_once_witness:
  "is_ok (reply_at (replies (fresh_driver False [Ok [], Raise USBError, Ok [], Ok []])) 0) \<and>
   calls (trace (snd (connect (fresh_driver False [Ok [], Raise USBError, Ok [], Ok []])))) =
     [BaseConnect, OPEN, CLOSE, OPEN] \<and>
   fst (connect (fresh_driver False [Ok [], Raise USBError, Ok [], Ok []])) = Inr ()"
  using connect_close_then_retry_once
          [of "fresh_driver False [Ok [], Raise USBError, Ok [], Ok []]"]
  by (simp add: fresh_driver_def)

text \<open>
  The claim as stated fails when the \<open>close\<close> raises as well: the first \<open>open\<close> has failed
  with the transport error, and \<open>open\<close> is not retried.
\<close>

theorem connect_no_retry_counterexample:
  "calls (trace (snd (connect (fresh_driver False [Ok [], Raise USBError, Raise USBError])))) =
     [BaseConnect, OPEN, CLOSE] \<and>
   fst (connect (fresh_driver False [Ok [], Raise USBError, Raise USBError])) = Inl USBError"
  by (simp add: fresh_driver_def connect_def transport_reply open_device_reply
        close_device_reply Let_def)

subsection \<open>get_status: decoding the frame\<close>

lemma format_firmware_short: "length args < 4 \<Longrightarrow> format_firmware args = Inl IndexError"
  by (auto simp: format_firmware_def split: list.splits)

lemma slice_firmware:
  assumes "27 \<le> length msg"
  shows "slice msg 0x17 0x1b = [msg ! 23, msg ! 24, msg ! 25, msg ! 26]"
proof (rule nth_equalityI)
  show "length (slice msg 0x17 0x1b) = length [msg ! 23, msg ! 24, msg ! 25, msg ! 26]"
    using assms by (simp add: slice_def)
next
  fix i
  assume "i < length (slice msg 0x17 0x1b)"
  then have "i < 4"
    by (simp add: slice_def)
  then consider "i = 0" | "i = 1" | "i = 2" | "i = 3"
    by linarith
  then show "slice msg 0x17 0x1b ! i = [msg ! 23, msg ! 24, msg ! 25, msg ! 26] ! i"
    using assms by cases (simp_all add: slice_def)
qed

lemma status_report_short:
  assumes "length msg < 27"
  shows "status_report msg = Inl IndexError"
proof -
  have "length (slice msg 0x17 0x1b) < 4"
    using assms by (simp add: slice_def)
  then show ?thesis
    by (simp add: status_report_def bind_res_def format_firmware_short)
qed

lemma status_report_long:
  assumes "27 \<le> length msg"
  shows "status_report msg =
           Inr [(''Liquid temperature'',
                 VFloat (of_int (msg ! 10) + of_int (msg ! 14) / 10), degree_celsius),
                (''Fan speed'', VInt (or (push_bit 8 (msg ! 0)) (msg ! 1)), ''rpm''),
                (''Pump speed'', VInt (or (push_bit 8 (msg ! 8)) (msg ! 9)), ''rpm''),
                (''Firmware version'',
                 VStr (str (msg ! 23) @ ''.'' @ str (msg ! 24) @ ''.'' @ str (msg ! 25) @
                       ''.'' @ str (msg ! 26)), [])]"
proof -
  have "0 < length msg" "1 < length msg" "8 < length msg" "9 < length msg"
    "10 < length msg" "14 < length msg"
    using assms by auto
  then show ?thesis
    using assms
    by (simp add: status_report_def bind_res_def slice_firmware format_firmware_def item_def)
qed

text \<open>
  When \<open>get_status\<close> gets as far as the read, its result is the decoding of the frame read.
  The read is the third transport call, or the second in dry-run mode.
\<close>

lemma get_status_run:
  assumes "data_file w = Some frame"
    and "is_ok (reply_at (replies w) 0)"
    and "dry_run w \<or> is_ok (reply_at (replies w) 1)"
    and "reply_at (replies w) (if dry_run w then 1 else 2) = Ok msg"
  shows "fst (get_status w) = status_report msg"
proof (cases "dry_run w")
  case True
  with assms have "reply_at (replies w) (Suc 0) = Ok msg"
    by simp
  with assms(1,2) True show ?thesis
    by (cases "reply_at (replies w) 0")
       (simp_all add: get_status_def begin_transaction_reply send_dummy_command_def
          from_yaml_def write_cmd_reply end_transaction_and_read_reply)
next
  case False
  with assms have "is_ok (reply_at (replies w) (Suc 0))"
    and "reply_at (replies w) 2 = Ok msg"
    by simp_all
  with assms(1,2) False show ?thesis
    by (cases "reply_at (replies w) 0"; cases "reply_at (replies w) (Suc 0)")
       (simp_all add: get_status_def begin_transaction_reply send_dummy_command_def
          from_yaml_def write_cmd_reply end_transaction_and_read_reply)
qed

text \<open>
  Claim C1. For every 32-byte frame that the read of \<open>get_status\<close> returns, the report is:
  liquid temperature \<open>frame[10] + frame[14]/10\<close> in degrees Celsius, fan speed
  \<open>frame[0] << 8 | frame[1]\<close> in rpm, pump speed \<open>frame[8] << 8 | frame[9]\<close> in rpm, and the
  firmware version made of the four bytes at 0x17 to 0x1a, joined with dots. The bytes
  0x0b, 0xb8 give 3000, the bytes 0x03, 0xe8 give 1000.
\<close>

theorem get_status_report:
  assumes "data_file w = Some frame"
    and "is_ok (reply_at (replies w) 0)"
    and "dry_run w \<or> is_ok (reply_at (replies w) 1)"
    and "reply_at (replies w) (if dry_run w then 1 else 2) = Ok msg"
    and "length msg = 32"
  shows "fst (get_status w) =
           Inr [(''Liquid temperature'',
                 VFloat (of_int (msg ! 10) + of_int (msg ! 14) / 10), degree_celsius),
                (''Fan speed'', VInt (or (push_bit 8 (msg ! 0)) (msg ! 1)), ''rpm''),
                (''Pump speed'', VInt (or (push_bit 8 (msg ! 8)) (msg ! 9)), ''rpm''),
                (''Firmware version'',
                 VStr (str (msg ! 23) @ ''.'' @ str (msg ! 24) @ ''.'' @ str (msg ! 25) @
                       ''.'' @ str (msg ! 26)), [])] \<and>
         (msg ! 0 = 0x0b \<and> msg ! 1 = 0xb8 \<longrightarrow> or (push_bit 8 (msg ! 0)) (msg ! 1) = 3000) \<and>
         (msg ! 8 = 0x03 \<and> msg ! 9 = 0xe8 \<longrightarrow> or (push_bit 8 (msg ! 8)) (msg ! 9) = 1000)"
proof -
  have "fst (get_status w) = status_report msg"
    using assms(1-4) by (rule get_status_run)
  moreover have "27 \<le> length msg"
    using assms(5) by simp
  ultimately show ?thesis
    by (simp add: status_report_long)
qed

theorem get_status_report_witness:
  "fst (get_status (fresh_driver False [Ok [], Ok [], Ok example_frame])) =
     Inr [(''Liquid temperature'', VFloat (253 / 10), degree_celsius),
          (''Fan speed'', VInt 3000, ''rpm''),
          (''Pump speed'', VInt 1000, ''rpm''),
          (''Firmware version'', VStr ''1.0.7.12'', [])]"
  using get_status_report
          [of "fresh_driver False [Ok [], Ok [], Ok example_frame]" DEFAULT_COLOR_STATE
             example_frame]
  by (simp add: fresh_driver_def example_frame_def str_def)

text \<open>
  Claim C8, as amended. Decoding fails whenever the frame read is shorter than 27 bytes,
  and for every frame of at least 27 bytes it produces the report: the temperature from
  bytes 10 and 14, the fan speed from bytes 0 and 1, the pump speed from bytes 8 and 9, the
  firmware version from bytes 0x17 to 0x1a. The failure is not an error of the driver's
  own: it is the IndexError that \<^verbatim>\<open>str.format\<close> raises when the slice \<^verbatim>\<open>msg[0x17:0x1b]\<close>
  holds fewer than four bytes. The driver checks no length and has no exception for a
  truncated frame.
\<close>

theorem get_status_truncated_frame:
  assumes "data_file w = Some frame"
    and "is_ok (reply_at (replies w) 0)"
    and "dry_run w \<or> is_ok (reply_at (replies w) 1)"
    and "reply_at (replies w) (if dry_run w then 1 else 2) = Ok msg"
  shows "(length msg < 27 \<longrightarrow> fst (get_status w) = Inl IndexError) \<and>
         (27 \<le> length msg \<longrightarrow>
            fst (get_status w) =
              Inr [(''Liquid temperature'',
                    VFloat (of_int (msg ! 10) + of_int (msg ! 14) / 10), degree_celsius),
                   (''Fan speed'', VInt (or (push_bit 8 (msg ! 0)) (msg ! 1)), ''rpm''),
                   (''Pump speed'', VInt (or (push_bit 8 (msg ! 8)) (msg ! 9)), ''rpm''),
                   (''Firmware version'',
                    VStr (str (msg ! 23) @ ''.'' @ str (msg ! 24) @ ''.'' @ str (msg ! 25) @
                          ''.'' @ str (msg ! 26)), [])])"
proof -
  have "fst (get_status w) = status_report msg"
    using assms by (rule get_status_run)
  then show ?thesis
    by (simp add: status_report_short status_report_long)
qed

text \<open>
  A frame of 26 bytes fails, the same frame with one more byte is decoded: 3000 rpm,
  1000 rpm, 25.3 degrees, firmware 1.0.7.12.
\<close>

theorem get_status_truncated_frame_witness:
  "fst (get_status (fresh_driver True [Ok [], Ok (take 26 example_frame)])) =
     Inl IndexError \<and>
   fst (get_status (fresh_driver False [Ok [], Ok [], Ok (take 27 example_frame)])) =
     Inr [(''Liquid temperature'', VFloat (253 / 10), degree_celsius),
          (''Fan speed'', VInt 3000, ''rpm''),
          (''Pump speed'', VInt 1000, ''rpm''),
          (''Firmware version'', VStr ''1.0.7.12'', [])]"
  using get_status_truncated_frame
          [of "fresh_driver True [Ok [], Ok (take 26 example_frame)]"
             DEFAULT_COLOR_STATE "take 26 example_frame"]
        get_status_truncated_frame
          [of "fresh_driver False [Ok [], Ok [], Ok (take 27 example_frame)]"
             DEFAULT_COLOR_STATE "take 27 example_frame"]
  by (simp add: fresh_driver_def example_frame_def str_def)

text \<open>
  The claim as stated names the failure TruncatedFrame. On a frame of 26 bytes the call
  fails with Python's IndexError, after the whole transaction has been carried out: the
  begin, the write and the read are all in the trace.
\<close>

theorem get_status_index_error_counterexample:
  "fst (get_status (fresh_driver False [Ok [], Ok [], Ok (take 26 example_frame)])) =
     Inl IndexError \<and>
   calls (trace (snd (get_status (fresh_driver False [Ok [], Ok [], Ok (take 26 example_frame)])))) =
     [BEGIN, FromYaml, WRITE DEFAULT_COLOR_STATE, READ, DisposeResources]"
  by (simp add: get_status_def begin_transaction_reply send_dummy_command_def from_yaml_def
        write_cmd_reply end_transaction_and_read_reply fresh_driver_def example_frame_def
        status_report_def bind_res_def slice_def format_firmware_def)

subsection \<open>The clamp pass of prepare_profile\<close>

declare prepare_profile_loop.simps [simp del]

lemma prepare_profile_loop_length:
  "length (prepare_profile_loop i opt min_duty max_duty) = length opt"
proof (induction i opt min_duty max_duty rule: prepare_profile_loop.induct)
  case (1 i opt min_duty max_duty)
  show ?case
  proof (cases "i < length opt")
    case True
    obtain temp duty where entry: "opt ! i = (temp, duty)"
      by (cases "opt ! i")
    show ?thesis
      using True entry "1.IH" [OF True entry [symmetric]]
      by (subst prepare_profile_loop.simps) (simp split: if_splits)
  next
    case False
    then show ?thesis
      by (subst prepare_profile_loop.simps) simp
  qed
qed

text \<open>
  Entries before the index are left alone, every later entry keeps its temperature and has
  its duty replaced by the bound it crosses.
\<close>

lemma prepare_profile_loop_nth:
  "j < length opt \<Longrightarrow>
   prepare_profile_loop i opt min_duty max_duty ! j =
     (if j < i then opt ! j
      else (fst (opt ! j),
            if snd (opt ! j) < min_duty then min_duty
            else if snd (opt ! j) > max_duty then max_duty
            else snd (opt ! j)))"
proof (induction i opt min_duty max_duty rule: prepare_profile_loop.induct)
  case (1 i opt min_duty max_duty)
  show ?case
  proof (cases "i < length opt")
    case True
    obtain temp duty where entry: "opt ! i = (temp, duty)"
      by (cases "opt ! i")
    note IH = "1.IH" [OF True entry [symmetric]]
    consider (low) "duty < min_duty"
      | (high) "\<not> duty < min_duty" "duty > max_duty"
      | (inside) "\<not> duty < min_duty" "\<not> duty > max_duty"
      by blast
    then show ?thesis
    proof cases
      case low
      have "prepare_profile_loop i opt min_duty max_duty ! j =
              prepare_profile_loop (Suc i) (opt[i := (temp, min_duty)]) min_duty max_duty ! j"
        using True entry low by (subst prepare_profile_loop.simps) simp
      also have "\<dots> =
              (if j < Suc i then opt[i := (temp, min_duty)] ! j
               else (fst (opt[i := (temp, min_duty)] ! j),
                     if snd (opt[i := (temp, min_duty)] ! j) < min_duty then min_duty
                     else if snd (opt[i := (temp, min_duty)] ! j) > max_duty then max_duty
                     else snd (opt[i := (temp, min_duty)] ! j)))"
        using IH(1) [OF low] "1.prems" by simp
      finally show ?thesis
        using True entry low "1.prems" by (auto simp: nth_list_update less_Suc_eq)
    next
      case high
      have "prepare_profile_loop i opt min_duty max_duty ! j =
              prepare_profile_loop (Suc i) (opt[i := (temp, max_duty)]) min_duty max_duty ! j"
        using True entry high by (subst prepare_profile_loop.simps) simp
      also have "\<dots> =
              (if j < Suc i then opt[i := (temp, max_duty)] ! j
               else (fst (opt[i := (temp, max_duty)] ! j),
                     if snd (opt[i := (temp, max_duty)] ! j) < min_duty then min_duty
                     else if snd (opt[i := (temp, max_duty)] ! j) > max_duty then max_duty
                     else snd (opt[i := (temp, max_duty)] ! j)))"
        using IH(2) [OF high] "1.prems" by simp
      finally show ?thesis
        using True entry high "1.prems" by (auto simp: nth_list_update less_Suc_eq)
    next
      case inside
      have "prepare_profile_loop i opt min_duty max_duty ! j =
              prepare_profile_loop (Suc i) opt min_duty max_duty ! j"
        using True entry inside by (subst prepare_profile_loop.simps) simp
      also have "\<dots> =
              (if j < Suc i then opt ! j
               else (fst (opt ! j),
                     if snd (opt ! j) < min_duty then min_duty
                     else if snd (opt ! j) > max_duty then max_duty
                     else snd (opt ! j)))"
        using IH(3) [OF inside] "1.prems" by simp
      finally show ?thesis
        using True entry inside "1.prems" by (auto simp: less_Suc_eq)
    qed
  next
    case False
    with "1.prems" show ?thesis
      by (subst prepare_profile_loop.simps) simp
  qed
qed

lemma channel_bounds:
  "VARIABLE_SPEED_CHANNELS channel = Some (mtype, dmin, dmax) \<Longrightarrow>
   channel = ''fan'' \<and> mtype = 0x11 \<and> dmin = 30 \<and> dmax = 100"
  "FIXED_SPEED_CHANNELS channel = Some (mtype, dmin, dmax) \<Longrightarrow>
   (channel = ''fan'' \<and> mtype = 0x12 \<or> channel = ''pump'' \<and> mtype = 0x13) \<and>
   dmin = 30 \<and> dmax = 100"
  by (auto simp: VARIABLE_SPEED_CHANNELS_def FIXED_SPEED_CHANNELS_def split: if_splits)

text \<open>
  Claim C3. For every channel, with its bounds \<open>(min_duty, max_duty)\<close>, and every profile
  that normalize and autofill return, the clamp pass of \<open>prepare_profile\<close> returns a
  profile of the same length, with every temperature unchanged and every duty in
  \<open>[min_duty, max_duty]\<close> (the duty itself, or the bound it crossed); it cannot fail.
\<close>

theorem prepare_profile_clamps:
  assumes "VARIABLE_SPEED_CHANNELS channel = Some (mtype, min_duty, max_duty) \<or>
           FIXED_SPEED_CHANNELS channel = Some (mtype, min_duty, max_duty)"
    and "normalize_profile profile CRITICAL_TEMPERATURE = Inr normalized"
    and "autofill_profile normalized MAX_PROFILE_POINTS = Inr opt"
  shows "\<exists>res. prepare_profile normalize_profile autofill_profile profile min_duty max_duty =
                 Inr res \<and>
               length res = length opt \<and>
               (\<forall>i<length opt.
                  fst (res ! i) = fst (opt ! i) \<and>
                  min_duty \<le> snd (res ! i) \<and> snd (res ! i) \<le> max_duty \<and>
                  snd (res ! i) = max min_duty (min max_duty (snd (opt ! i))))"
proof -
  have bounds: "min_duty \<le> max_duty"
    using assms(1) channel_bounds by fastforce
  let ?res = "prepare_profile_loop 0 opt min_duty max_duty"
  have "prepare_profile normalize_profile autofill_profile profile min_duty max_duty = Inr ?res"
    using assms(2,3) by (simp add: prepare_profile_def)
  moreover have "length ?res = length opt"
    by (rule prepare_profile_loop_length)
  moreover have "fst (?res ! i) = fst (opt ! i) \<and>
                 min_duty \<le> snd (?res ! i) \<and> snd (?res ! i) \<le> max_duty \<and>
                 snd (?res ! i) = max min_duty (min max_duty (snd (opt ! i)))"
    if "i < length opt" for i
    using that bounds by (simp add: prepare_profile_loop_nth)
  ultimately show ?thesis
    by blast
qed

theorem prepare_profile_clamps_witness:
  "\<exists>res. prepare_profile (\<lambda>p c. Inr p) (\<lambda>p n. Inr p) [(20, 0), (30, 50), (40, 120)] 30 100 =
           Inr res \<and>
         length res = 3 \<and> map fst res = [20, 30, 40] \<and> map snd res = [30, 50, 100]"
proof -
  let ?p = "[(20, 0), (30, 50), (40, 120)] :: profile"
  have "VARIABLE_SPEED_CHANNELS ''fan'' = Some (0x11, 30, 100) \<or>
        FIXED_SPEED_CHANNELS ''fan'' = Some (0x11, 30, 100)"
    by (simp add: VARIABLE_SPEED_CHANNELS_def)
  from prepare_profile_clamps [OF this, of "\<lambda>p c. Inr p" ?p ?p "\<lambda>p n. Inr p" ?p]
  obtain res where res:
    "prepare_profile (\<lambda>p c. Inr p) (\<lambda>p n. Inr p) ?p 30 100 = Inr res"
    "length res = 3"
    "\<forall>i<3. fst (res ! i) = fst (?p ! i) \<and> snd (res ! i) = max 30 (min 100 (snd (?p ! i)))"
    by auto
  from res(3) have "res ! 0 = (20, 30)" "res ! 1 = (30, 50)" "res ! 2 = (40, 100)"
    by (auto simp: prod_eq_iff)
  with res(2) have "res = [(20, 30), (30, 50), (40, 100)]"
    by (auto simp: list_eq_iff_nth_eq less_Suc_eq eval_nat_numeral)
  with res(1) show ?thesis
    by simp
qed

subsection \<open>Fixed speeds\<close>

text \<open>
  Claim C5, as amended. For every fixed-speed channel and every integer speed,
  \<open>send_fixed_speed\<close> hands to the write the frame \<open>[message type, duty]\<close>, where the duty
  is the speed clipped into the channel's bounds; a speed out of range is no failure, and
  what is logged is one info record of the clipped duty and the debug record of the write,
  no warning. The frame reaches the device unless the driver is in dry-run mode, and the
  only possible failure is that of the transport. For the fan, speed 10 gives duty 30 and
  speed 150 gives duty 100.
\<close>

theorem send_fixed_speed_frame:
  assumes "FIXED_SPEED_CHANNELS channel = Some (mtype, smin, smax)"
  shows "trace (snd (send_fixed_speed channel speed w)) =
           trace w @
           [Log Info ''setting %s PWM duty to %i%%'' [S channel, I (max smin (min smax speed))],
            Log Debug ''write %s'' [Hex [mtype, max smin (min smax speed)]]] @
           (if dry_run w then [] else [WRITE [mtype, max smin (min smax speed)]]) \<and>
         fst (send_fixed_speed channel speed w) =
           (if dry_run w then Inr () else outcome (reply_at (replies w) 0)) \<and>
         log_levels (trace (snd (send_fixed_speed channel speed w))) =
           log_levels (trace w) @ [Info, Debug] \<and>
         smin \<le> max smin (min smax speed) \<and> max smin (min smax speed) \<le> smax \<and>
         (channel = ''fan'' \<longrightarrow>
            mtype = 0x12 \<and> max smin (min smax 10) = 30 \<and> max smin (min smax 150) = 100)"
proof -
  have bounds: "smin = 30" "smax = 100"
    using assms channel_bounds(2) by blast+
  have clip: "(if speed < smin then smin else if speed > smax then smax else speed) =
              max smin (min smax speed)"
    using bounds by auto
  have fan: "mtype = 0x12" if "channel = ''fan''"
    using assms that by (simp add: FIXED_SPEED_CHANNELS_def)
  show ?thesis
    using assms bounds fan
    by (simp add: send_fixed_speed_def clip write_cmd_reply Let_def
          del: max_less_iff_conj min_less_iff_conj)
qed

theorem send_fixed_speed_frame_witness:
  "writes (trace (snd (send_fixed_speed ''fan'' 10 (fresh_driver False [])))) = [[0x12, 30]] \<and>
   writes (trace (snd (send_fixed_speed ''fan'' 150 (fresh_driver False [])))) = [[0x12, 100]] \<and>
   fst (send_fixed_speed ''fan'' 150 (fresh_driver False [])) = Inr ()"
proof -
  have fan: "FIXED_SPEED_CHANNELS ''fan'' = Some (0x12, 30, 100)"
    by (simp add: FIXED_SPEED_CHANNELS_def)
  show ?thesis
    using send_fixed_speed_frame [OF fan, of 10 "fresh_driver False []"]
      send_fixed_speed_frame [OF fan, of 150 "fresh_driver False []"]
    by (simp add: fresh_driver_def)
qed

text \<open>
  The claim as stated asks for a warning-level event when the speed is out of range: at
  speed 10 the fan is set to 30 and the records logged are one info and one debug record.
\<close>

theorem send_fixed_speed_no_warning_counterexample:
  "log_levels (trace (snd (send_fixed_speed ''fan'' 10 (fresh_driver False [])))) =
     [Info, Debug] \<and>
   calls (trace (snd (send_fixed_speed ''fan'' 10 (fresh_driver False [])))) =
     [WRITE [0x12, 30]]"
  by (simp add: send_fixed_speed_def FIXED_SPEED_CHANNELS_def write_cmd_reply fresh_driver_def
        Let_def)

text \<open>
  Claim C6, as amended. For the channels \<open>fan\<close> and \<open>pump\<close>, a transport error of the read
  that ends \<open>set_fixed_speed\<close> is logged (a warning, and the error at debug level) and
  swallowed: the call returns. The \<open>close\<close> of \<open>disconnect\<close> is no such path: its error is
  the caller's, and the base class's disconnect is not reached.
\<close>

theorem best_effort_paths:
  "(FIXED_SPEED_CHANNELS channel = Some entry \<and>
    is_ok (reply_at (replies w) 0) \<and>
    (dry_run w \<or> is_ok (reply_at (replies w) 1)) \<and>
    reply_at (replies w) (if dry_run w then 1 else 2) = Raise USBError \<longrightarrow>
      fst (set_fixed_speed channel speed w) = Inr () \<and>
      (\<exists>t. trace (snd (set_fixed_speed channel speed w)) =
             t @ [READ, Log Warning ''report: failed to read after setting speed'' [],
                  LogExc Debug USBError])) \<and>
   (reply_at (replies w') 0 = Raise e \<longrightarrow>
      fst (disconnect w') = Inl e \<and>
      calls (trace (snd (disconnect w'))) = calls (trace w') @ [CLOSE])"
proof -
  have fixed: "fst (set_fixed_speed channel speed w) = Inr () \<and>
      (\<exists>t. trace (snd (set_fixed_speed channel speed w)) =
             t @ [READ, Log Warning ''report: failed to read after setting speed'' [],
                  LogExc Debug USBError])"
    if entry: "FIXED_SPEED_CHANNELS channel = Some entry"
      and r0: "is_ok (reply_at (replies w) 0)"
      and r1: "dry_run w \<or> is_ok (reply_at (replies w) 1)"
      and r2: "reply_at (replies w) (if dry_run w then 1 else 2) = Raise USBError"
  proof -
    obtain mtype smin smax where triple: "entry = (mtype, smin, smax)"
      by (cases entry)
    have not_sync: "channel \<noteq> ''sync''"
      using entry triple channel_bounds(2) by fastforce
    show ?thesis
    proof (cases "dry_run w")
      case True
      with r2 have "reply_at (replies w) (Suc 0) = Raise USBError"
        by simp
      with entry triple not_sync True r0 show ?thesis
        by (cases "reply_at (replies w) 0")
           (simp_all add: set_fixed_speed_def send_fixed_speed_def begin_transaction_reply
              write_cmd_reply end_transaction_and_read_reply Let_def)
    next
      case False
      with r1 r2 have "is_ok (reply_at (replies w) (Suc 0))"
        and "reply_at (replies w) 2 = Raise USBError"
        by simp_all
      with entry triple not_sync False r0 show ?thesis
        by (cases "reply_at (replies w) 0"; cases "reply_at (replies w) (Suc 0)")
           (simp_all add: set_fixed_speed_def send_fixed_speed_def begin_transaction_reply
              write_cmd_reply end_transaction_and_read_reply Let_def)
    qed
  qed
  have closing: "fst (disconnect w') = Inl e \<and>
      calls (trace (snd (disconnect w'))) = calls (trace w') @ [CLOSE]"
    if "reply_at (replies w') 0 = Raise e"
    using that by (simp add: disconnect_def close_device_reply)
  from fixed closing show ?thesis
    by blast
qed

theorem best_effort_paths_witness:
  "fst (set_fixed_speed ''pump'' 50 (fresh_driver False [Ok [], Ok [], Raise USBError])) =
     Inr () \<and>
   fst (disconnect (fresh_driver False [Raise OtherError])) = Inl OtherError"
  using best_effort_paths
          [of "''pump''" "(0x13, 30, 100)" "fresh_driver False [Ok [], Ok [], Raise USBError]"
             50 "fresh_driver False [Raise OtherError]" OtherError]
  by (simp add: fresh_driver_def FIXED_SPEED_CHANNELS_def)

text \<open>
  The claim as stated fails on \<open>disconnect\<close>: a transport error of its \<open>close\<close> is raised
  to the caller.
\<close>

theorem disconnect_raises_counterexample:
  "fst (disconnect (fresh_driver False [Raise USBError])) = Inl USBError \<and>
   calls (trace (snd (disconnect (fresh_driver False [Raise USBError])))) = [CLOSE]"
  by (simp add: disconnect_def close_device_reply fresh_driver_def)

text \<open>
  The pseudo channel \<open>sync\<close> reads outside any handler, unlike \<open>fan\<close> and \<open>pump\<close>: there
  the error of the read is the caller's.
\<close>

lemma set_fixed_speed_sync_read_error:
  "fst (set_fixed_speed ''sync'' 50 (fresh_driver False [Ok [], Ok [], Ok [], Raise USBError])) =
     Inl USBError"
  by (simp add: set_fixed_speed_def send_fixed_speed_def FIXED_SPEED_CHANNELS_def
        begin_transaction_reply write_cmd_reply end_transaction_and_read_reply fresh_driver_def
        Let_def)

subsection \<open>get_status: the order of the calls\<close>




subsection \<open>set_speed_profile\<close>

lemma fold_log_trace:
  "trace (fold (\<lambda>(temp, duty). log l template (args temp duty)) xs w) =
     trace w @ map (\<lambda>(temp, duty). Log l template (args temp duty)) xs"
  by (induction xs arbitrary: w) (auto simp: case_prod_unfold)

lemma fold_log_fields [simp]:
  "replies (fold (\<lambda>(temp, duty). log l template (args temp duty)) xs w) = replies w"
  "dry_run (fold (\<lambda>(temp, duty). log l template (args temp duty)) xs w) = dry_run w"
  "data_file (fold (\<lambda>(temp, duty). log l template (args temp duty)) xs w) = data_file w"
  by (induction xs arbitrary: w) (auto simp: case_prod_unfold)

lemma calls_logs [simp]: "calls (map (\<lambda>(temp, duty). Log l template (args temp duty)) xs) = []"
  by (induction xs) (auto simp: case_prod_unfold)

lemma writes_logs [simp]: "writes (map (\<lambda>(temp, duty). Log l template (args temp duty)) xs) = []"
  by (induction xs) (auto simp: case_prod_unfold)

lemma writes_read_events [simp]: "writes (read_events r) = []"
  by (cases r) (simp_all add: read_events_def)

lemma prepare_profile_duties:
  assumes "prepare_profile normalize_profile autofill_profile profile dmin dmax = Inr opt"
    and "dmin \<le> dmax" and "i < length opt"
  shows "dmin \<le> snd (opt ! i) \<and> snd (opt ! i) \<le> dmax"
proof -
  from assms(1) obtain opt0 where opt: "opt = prepare_profile_loop 0 opt0 dmin dmax"
    by (auto simp: prepare_profile_def split: sum.splits)
  with assms(3) have "i < length opt0"
    by (simp add: prepare_profile_loop_length)
  with assms(2) show ?thesis
    unfolding opt by (simp add: prepare_profile_loop_nth)
qed

text \<open>
  Claim C4, as amended. For the profile channel (\<open>fan\<close>) and every profile whose prepared
  profile has \<open>n\<close> points, \<open>set_speed_profile\<close> sends at most one frame: the message type, a
  0, the temperatures in order, then the duties in order, one element each, the duties
  within the channel's bounds. That is \<open>2 + 2n\<close> elements, 14 for six points. The frame
  reaches the device exactly once when \<open>n > 0\<close>, begin-transaction succeeds and the driver
  is not in dry-run mode. The length is not checked: an empty prepared profile is a
  ValueError before any transport call, any other length is sent as it is.
\<close>

theorem set_speed_profile_frame:
  assumes "VARIABLE_SPEED_CHANNELS channel = Some (mtype, dmin, dmax)"
    and "prepare_profile normalize_profile autofill_profile profile dmin dmax = Inr opt"
  shows "writes (trace (snd (set_speed_profile normalize_profile autofill_profile
                               channel profile w))) =
           writes (trace w) @
           (if opt \<noteq> [] \<and> is_ok (reply_at (replies w) 0) \<and> \<not> dry_run w
            then [[mtype, 0] @ map fst opt @ map snd opt] else []) \<and>
         length ([mtype, 0] @ map fst opt @ map snd opt) = 2 + 2 * length opt \<and>
         (\<forall>i<length opt. dmin \<le> snd (opt ! i) \<and> snd (opt ! i) \<le> dmax) \<and>
         (opt = [] \<longrightarrow>
            fst (set_speed_profile normalize_profile autofill_profile channel profile w) =
              Inl ValueError \<and>
            calls (trace (snd (set_speed_profile normalize_profile autofill_profile
                                 channel profile w))) = calls (trace w))"
proof -
  have "dmin \<le> dmax"
    using assms(1) channel_bounds(1) by fastforce
  then have duties: "\<forall>i<length opt. dmin \<le> snd (opt ! i) \<and> snd (opt ! i) \<le> dmax"
    using prepare_profile_duties [OF assms(2)] by blast
  have sent: "writes (trace (snd (set_speed_profile normalize_profile autofill_profile
                               channel profile w))) =
           writes (trace w) @
           (if opt \<noteq> [] \<and> is_ok (reply_at (replies w) 0) \<and> \<not> dry_run w
            then [[mtype, 0] @ map fst opt @ map snd opt] else [])"
    using assms
    by (cases "reply_at (replies w) 0"; cases "reply_at (replies w) (Suc 0)";
        cases "reply_at (replies w) 2")
       (simp_all add: set_speed_profile_def begin_transaction_reply write_cmd_reply
          end_transaction_and_read_reply fold_log_trace Let_def)
  have empty: "fst (set_speed_profile normalize_profile autofill_profile channel profile w) =
              Inl ValueError \<and>
            calls (trace (snd (set_speed_profile normalize_profile autofill_profile
                                 channel profile w))) = calls (trace w)"
    if "opt = []"
    using assms that by (simp add: set_speed_profile_def)
  from duties sent empty show ?thesis
    by simp
qed

theorem set_speed_profile_frame_witness:
  "writes (trace (snd (set_speed_profile (\<lambda>p c. Inr p) (\<lambda>p n. Inr p) ''fan''
                         [(20, 30), (30, 40), (40, 50), (50, 70), (55, 90), (60, 120)]
                         (fresh_driver False [])))) =
     [[0x11, 0, 20, 30, 40, 50, 55, 60, 30, 40, 50, 70, 90, 100]]"
proof -
  let ?p = "[(20, 30), (30, 40), (40, 50), (50, 70), (55, 90), (60, 120)] :: profile"
  let ?opt = "[(20, 30), (30, 40), (40, 50), (50, 70), (55, 90), (60, 100)] :: profile"
  have fan: "VARIABLE_SPEED_CHANNELS ''fan'' = Some (0x11, 30, 100)"
    by (simp add: VARIABLE_SPEED_CHANNELS_def)
  have prepared: "prepare_profile (\<lambda>p c. Inr p) (\<lambda>p n. Inr p) ?p 30 100 = Inr ?opt"
    by (simp add: prepare_profile_def prepare_profile_loop.simps)
  show ?thesis
    using set_speed_profile_frame [OF fan prepared, of "fresh_driver False []"]
    by (simp add: fresh_driver_def)
qed

text \<open>
  The claim as stated fails where it rejects: a prepared profile of five points is not
  refused, a frame of twelve bytes is written and the call returns.
\<close>

theorem set_speed_profile_short_counterexample:
  "fst (set_speed_profile (\<lambda>p c. Inr p) (\<lambda>p n. Inr p) ''fan''
          [(20, 30), (30, 40), (40, 50), (50, 70), (60, 100)] (fresh_driver False [])) =
     Inr () \<and>
   writes (trace (snd (set_speed_profile (\<lambda>p c. Inr p) (\<lambda>p n. Inr p) ''fan''
                         [(20, 30), (30, 40), (40, 50), (50, 70), (60, 100)]
                         (fresh_driver False [])))) =
     [[0x11, 0, 20, 30, 40, 50, 60, 30, 40, 50, 70, 100]]"
  by (simp add: set_speed_profile_def VARIABLE_SPEED_CHANNELS_def prepare_profile_def
        prepare_profile_loop.simps begin_transaction_reply write_cmd_reply
        end_transaction_and_read_reply fresh_driver_def Let_def)

subsection \<open>set_color\<close>

text \<open>
  A call with a supported mode and, unless the mode is \<open>off\<close>, at least one colour passes
  the checks. This is all it does then.
\<close>

lemma set_color_run:
  assumes "mode \<in> set modes" and "mode = ''off'' \<or> colors \<noteq> []"
  shows "trace (snd (set_color channel mode colors speed w)) =
           trace w @ argument_warnings channel mode colors speed @
           [Log Debug ''begin transaction'' [], BEGIN] @
           (if \<not> is_ok (reply_at (replies w) 0) then []
            else [ToYaml (color_frame mode colors speed),
                  Log Debug ''write %s'' [Hex (color_frame mode colors speed)]] @
              (if dry_run w then read_events (reply_at (replies w) 1)
               else WRITE (color_frame mode colors speed) #
                 (if \<not> is_ok (reply_at (replies w) 1) then []
                  else read_events (reply_at (replies w) 2))))"
    and "fst (set_color channel mode colors speed w) =
           (if \<not> is_ok (reply_at (replies w) 0) then outcome (reply_at (replies w) 0)
            else if dry_run w then outcome (reply_at (replies w) 1)
            else if \<not> is_ok (reply_at (replies w) 1) then outcome (reply_at (replies w) 1)
            else outcome (reply_at (replies w) 2))"
    and "data_file (snd (set_color channel mode colors speed w)) =
           (if is_ok (reply_at (replies w) 0) then Some (color_frame mode colors speed)
            else data_file w)"
proof -
  obtain speed1 w1 where parsed:
    "(case speed of
        SpeedName s \<Rightarrow>
          (case speeds s of
             None \<Rightarrow> (1, log Warning speed_warning [] w)
           | Some v \<Rightarrow> (v, w))
      | SpeedInt n \<Rightarrow>
          if n < 1 \<or> n > 255 then (1, log Warning speed_warning [] w) else (n, w)) =
     (speed1, w1)"
    by (cases "(case speed of
        SpeedName s \<Rightarrow>
          (case speeds s of
             None \<Rightarrow> (1, log Warning speed_warning [] w)
           | Some v \<Rightarrow> (v, w))
      | SpeedInt n \<Rightarrow>
          if n < 1 \<or> n > 255 then (1, log Warning speed_warning [] w) else (n, w))")
  then have speed1: "speed1 = speed_byte speed"
    and w1: "w1 = (if speed_rejected speed then log Warning speed_warning [] w else w)"
    by (auto simp: speed_byte_def speed_rejected_def split: speed_arg.splits option.splits
          if_splits)
  have w1_fields: "replies w1 = replies w" "dry_run w1 = dry_run w" "data_file w1 = data_file w"
    "trace w1 = trace w @ (if speed_rejected speed then [Log Warning speed_warning []] else [])"
    by (simp_all add: w1)
  show "trace (snd (set_color channel mode colors speed w)) =
           trace w @ argument_warnings channel mode colors speed @
           [Log Debug ''begin transaction'' [], BEGIN] @
           (if \<not> is_ok (reply_at (replies w) 0) then []
            else [ToYaml (color_frame mode colors speed),
                  Log Debug ''write %s'' [Hex (color_frame mode colors speed)]] @
              (if dry_run w then read_events (reply_at (replies w) 1)
               else WRITE (color_frame mode colors speed) #
                 (if \<not> is_ok (reply_at (replies w) 1) then []
                  else read_events (reply_at (replies w) 2))))"
    using assms
    by (cases "reply_at (replies w) 0"; cases "reply_at (replies w) (Suc 0)";
        cases "reply_at (replies w) 2"; cases colors; cases "tl colors")
       (simp_all add: set_color_def parsed speed1 w1_fields begin_transaction_reply
          write_cmd_reply end_transaction_and_read_reply read_events_def color_frame_def
          argument_warnings_def Let_def)
  show "fst (set_color channel mode colors speed w) =
           (if \<not> is_ok (reply_at (replies w) 0) then outcome (reply_at (replies w) 0)
            else if dry_run w then outcome (reply_at (replies w) 1)
            else if \<not> is_ok (reply_at (replies w) 1) then outcome (reply_at (replies w) 1)
            else outcome (reply_at (replies w) 2))"
    using assms
    by (cases "reply_at (replies w) 0"; cases "reply_at (replies w) (Suc 0)";
        cases "reply_at (replies w) 2"; cases colors; cases "tl colors")
       (simp_all add: set_color_def parsed speed1 w1_fields begin_transaction_reply
          write_cmd_reply end_transaction_and_read_reply Let_def)
  show "data_file (snd (set_color channel mode colors speed w)) =
           (if is_ok (reply_at (replies w) 0) then Some (color_frame mode colors speed)
            else data_file w)"
    using assms
    by (cases "reply_at (replies w) 0"; cases "reply_at (replies w) (Suc 0)";
        cases "reply_at (replies w) 2"; cases colors; cases "tl colors")
       (simp_all add: set_color_def parsed speed1 w1_fields begin_transaction_reply
          write_cmd_reply end_transaction_and_read_reply color_frame_def Let_def)
qed

lemma set_color_no_color:
  assumes "mode \<in> set modes" and "mode \<noteq> ''off''"
  shows "fst (set_color channel mode [] speed w) = Inl ValueError"
    and "calls (trace (snd (set_color channel mode [] speed w))) = calls (trace w)"
    and "data_file (snd (set_color channel mode [] speed w)) = data_file w"
  using assms
  by (auto simp: set_color_def Let_def case_prod_unfold split: speed_arg.splits option.splits)

lemma warning_texts_differ:
  "colors_warning \<noteq> speed_warning" "colors_warning \<noteq> channel_warning"
  by (simp_all add: speed_warning_def channel_warning_def colors_warning_def)

lemma colors_warning_logged:
  "Log Warning colors_warning [] \<in> set (argument_warnings channel mode colors speed) \<longleftrightarrow>
     mode \<noteq> ''off'' \<and> 2 < length colors"
  by (simp add: argument_warnings_def warning_texts_differ)

lemma colors_warning_not_later:
  "Log Warning colors_warning [] \<notin> set (read_events r)"
  by (cases r) (simp_all add: read_events_def READ_def)

text \<open>
  Claim C9, as amended. For every supported mode and every speed, \<open>set_color\<close> accepts one
  or two colours, and any number of colours when the mode is \<open>off\<close>: with a transport that
  does not fail the call returns, and the frame saved and written is the one built from
  the first two colours (zeros for a missing second colour, zeros for both when the mode is
  \<open>off\<close>). More than two colours are accepted as well, with the truncation warning, which
  is logged in that case only. No colour at all with a mode other than \<open>off\<close> is a
  ValueError, raised before any transport call and before the stored frame is touched.
\<close>

theorem set_color_colors:
  assumes "mode \<in> set modes"
    and "\<forall>i<3. is_ok (reply_at (replies w) i)"
  shows "(mode = ''off'' \<or> colors \<noteq> [] \<longrightarrow>
            fst (set_color channel mode colors speed w) = Inr () \<and>
            data_file (snd (set_color channel mode colors speed w)) =
              Some (color_frame mode colors speed) \<and>
            writes (trace (snd (set_color channel mode colors speed w))) =
              writes (trace w) @ (if dry_run w then [] else [color_frame mode colors speed]) \<and>
            (Log Warning colors_warning []
               \<in> set (drop (length (trace w)) (trace (snd (set_color channel mode colors speed w))))
             \<longleftrightarrow> mode \<noteq> ''off'' \<and> 2 < length colors)) \<and>
         (mode \<noteq> ''off'' \<and> colors = [] \<longrightarrow>
            fst (set_color channel mode colors speed w) = Inl ValueError \<and>
            calls (trace (snd (set_color channel mode colors speed w))) = calls (trace w) \<and>
            data_file (snd (set_color channel mode colors speed w)) = data_file w)"
proof -
  from assms(2) have ok: "is_ok (reply_at (replies w) 0)" "is_ok (reply_at (replies w) (Suc 0))"
    "is_ok (reply_at (replies w) 2)"
    by (simp_all add: numeral_3_eq_3 numeral_2_eq_2 del: reply_at_Suc_numeral)
  have accepted:
    "fst (set_color channel mode colors speed w) = Inr () \<and>
     data_file (snd (set_color channel mode colors speed w)) =
       Some (color_frame mode colors speed) \<and>
     writes (trace (snd (set_color channel mode colors speed w))) =
       writes (trace w) @ (if dry_run w then [] else [color_frame mode colors speed]) \<and>
     (Log Warning colors_warning []
        \<in> set (drop (length (trace w)) (trace (snd (set_color channel mode colors speed w))))
      \<longleftrightarrow> mode \<noteq> ''off'' \<and> 2 < length colors)"
    if valid: "mode = ''off'' \<or> colors \<noteq> []"
  proof -
    note run = set_color_run [OF assms(1) valid, of channel speed w]
    have "fst (set_color channel mode colors speed w) = Inr ()"
      using ok unfolding run(2)
      by (cases "reply_at (replies w) 0"; cases "reply_at (replies w) (Suc 0)";
          cases "reply_at (replies w) 2") simp_all
    moreover have "data_file (snd (set_color channel mode colors speed w)) =
        Some (color_frame mode colors speed)"
      using ok unfolding run(3) by simp
    moreover have "writes (trace (snd (set_color channel mode colors speed w))) =
        writes (trace w) @ (if dry_run w then [] else [color_frame mode colors speed])"
      using ok unfolding run(1) by (simp add: argument_warnings_def)
    moreover have "Log Warning colors_warning []
        \<in> set (drop (length (trace w)) (trace (snd (set_color channel mode colors speed w))))
      \<longleftrightarrow> mode \<noteq> ''off'' \<and> 2 < length colors"
      using ok unfolding run(1)
      by (simp add: colors_warning_logged colors_warning_not_later BEGIN_def WRITE_def)
    ultimately show ?thesis
      by blast
  qed
  have refused:
    "fst (set_color channel mode colors speed w) = Inl ValueError \<and>
     calls (trace (snd (set_color channel mode colors speed w))) = calls (trace w) \<and>
     data_file (snd (set_color channel mode colors speed w)) = data_file w"
    if "mode \<noteq> ''off''" "colors = []"
    using set_color_no_color [OF assms(1) that(1), of channel speed w] that(2) by simp
  from accepted refused show ?thesis
    by blast
qed

theorem set_color_colors_witness:
  "fst (set_color ''logo'' ''alternating'' [[1, 2, 3], [4, 5, 6], [7, 8, 9]] (SpeedName ''slower'')
          (fresh_driver False [])) = Inr () \<and>
   writes (trace (snd (set_color ''logo'' ''alternating'' [[1, 2, 3], [4, 5, 6], [7, 8, 9]]
                         (SpeedName ''slower'') (fresh_driver False [])))) =
     [[0x10, 1, 2, 3, 4, 5, 6, 0xff, 0, 0, 0x37, 4, 4, 1, 1, 0, 1, 0, 1]] \<and>
   fst (set_color ''logo'' ''off'' [] (SpeedInt 3) (fresh_driver False [])) = Inr () \<and>
   fst (set_color ''logo'' ''fixed'' [] (SpeedInt 3) (fresh_driver False [])) = Inl ValueError"
proof -
  have ok: "\<forall>i<3. is_ok (reply_at (replies (fresh_driver False [])) i)"
    by (simp add: fresh_driver_def)
  have m: "''alternating'' \<in> set modes" "''off'' \<in> set modes" "''fixed'' \<in> set modes"
    by (simp_all add: modes_def)
  show ?thesis
    using set_color_colors [OF m(1) ok, of "[[1, 2, 3], [4, 5, 6], [7, 8, 9]]" "''logo''"
            "SpeedName ''slower''"]
      set_color_colors [OF m(2) ok, of "[]" "''logo''" "SpeedInt 3"]
      set_color_colors [OF m(3) ok, of "[]" "''logo''" "SpeedInt 3"]
    by (simp add: fresh_driver_def color_frame_def lighting_frame_def speed_byte_def speeds_def)
qed

text \<open>
  The claim as stated fails for no colour at all: with the mode \<open>fixed\<close>, unpacking the
  empty \<open>colors\<close> raises ValueError.
\<close>

theorem set_color_no_color_counterexample:
  "fst (set_color ''logo'' ''fixed'' [] (SpeedInt 3) (fresh_driver False [])) = Inl ValueError"
  by (simp add: set_color_def modes_def Let_def)

text \<open>
  Claim C10. In every \<open>set_color\<close> call that passes the checks and gets through
  begin-transaction, the new lighting frame (19 bytes when the colours are RGB triples) is
  saved to the data file before the write is attempted: the save and the write follow each
  other in the trace. So the stored frame is the new one whatever happens next: when the
  write or the read fails and the call fails with it, and in dry-run mode, where nothing is
  written to the device. It is never put back.
\<close>

theorem set_color_saves_first:
  assumes "mode \<in> set modes" and "mode = ''off'' \<or> colors \<noteq> []"
    and "is_ok (reply_at (replies w) 0)"
  shows "data_file (snd (set_color channel mode colors speed w)) =
           Some (color_frame mode colors speed) \<and>
         trace (snd (set_color channel mode colors speed w)) =
           trace w @ argument_warnings channel mode colors speed @
           [Log Debug ''begin transaction'' [], BEGIN,
            ToYaml (color_frame mode colors speed),
            Log Debug ''write %s'' [Hex (color_frame mode colors speed)]] @
           (if dry_run w then read_events (reply_at (replies w) 1)
            else WRITE (color_frame mode colors speed) #
              (if is_ok (reply_at (replies w) 1) then read_events (reply_at (replies w) 2)
               else [])) \<and>
         fst (set_color channel mode colors speed w) =
           (if dry_run w then outcome (reply_at (replies w) 1)
            else if is_ok (reply_at (replies w) 1) then outcome (reply_at (replies w) 2)
            else outcome (reply_at (replies w) 1)) \<and>
         (list_all rgb colors \<longrightarrow> length (color_frame mode colors speed) = 19)"
proof -
  note run = set_color_run [OF assms(1,2), of channel speed w]
  have size: "length (color_frame mode colors speed) = 19" if "list_all rgb colors"
  proof (cases "mode = ''off''")
    case True
    then show ?thesis
      by (simp add: color_frame_def lighting_frame_def)
  next
    case False
    with assms(2) obtain c cs where colors: "colors = c # cs"
      by (cases colors) auto
    with that have "length c = 3" and "cs \<noteq> [] \<Longrightarrow> length (hd cs) = 3"
      by (cases cs; simp add: rgb_def)+
    with False colors show ?thesis
      by (cases cs) (simp_all add: color_frame_def lighting_frame_def)
  qed
  from assms(3) size show ?thesis
    unfolding run by simp
qed

theorem set_color_saves_first_witness:
  "data_file (snd (set_color ''logo'' ''fixed'' [[255, 0, 0]] (SpeedInt 2)
                     (fresh_driver False [Ok [], Raise USBError]))) =
     Some [0x10, 255, 0, 0, 0, 0, 0, 0xff, 0, 0, 0x37, 2, 2, 1, 0, 0, 1, 0, 1] \<and>
   fst (set_color ''logo'' ''fixed'' [[255, 0, 0]] (SpeedInt 2)
          (fresh_driver False [Ok [], Raise USBError])) = Inl USBError \<and>
   data_file (snd (set_color ''logo'' ''fixed'' [[255, 0, 0]] (SpeedInt 2)
                     (fresh_driver True []))) =
     Some [0x10, 255, 0, 0, 0, 0, 0, 0xff, 0, 0, 0x37, 2, 2, 1, 0, 0, 1, 0, 1] \<and>
   writes (trace (snd (set_color ''logo'' ''fixed'' [[255, 0, 0]] (SpeedInt 2)
                         (fresh_driver True [])))) = []"
proof -
  have m: "''fixed'' \<in> set modes"
    by (simp add: modes_def)
  have c: "''fixed'' = ''off'' \<or> [[255, 0, 0 :: int]] \<noteq> []"
    by simp
  have ok: "is_ok (reply_at (replies (fresh_driver False [Ok [], Raise USBError])) 0)"
    "is_ok (reply_at (replies (fresh_driver True [])) 0)"
    by (simp_all add: fresh_driver_def)
  show ?thesis
    using set_color_saves_first [OF m c ok(1), of "''logo''" "SpeedInt 2"]
      set_color_saves_first [OF m c ok(2), of "''logo''" "SpeedInt 2"]
    by (simp add: fresh_driver_def color_frame_def lighting_frame_def speed_byte_def
          argument_warnings_def speed_rejected_def read_events_def rgb_def)
qed

end
